theory Spec2Isabelle
  imports Complex_Main "HOL-Library.Multiset"
begin

section \<open>JavaScript values\<close>

text \<open>
  The editor is a TypeScript/React program. A JavaScript number is modelled as a
  \<^typ>\<open>real\<close>: IEEE rounding, \<open>NaN\<close> and the infinities are not represented, and a
  division is only meaningful where the divisor is not zero (HOL gives \<open>x / 0 = 0\<close>
  where JavaScript gives an infinity or \<open>NaN\<close>), so every statement about a
  quotient carries the hypothesis that the divisor is positive.

  The values that \<open>JSON.parse\<close> can build, together with \<open>undefined\<close> (the value of
  a property that is not there), are the type \<open>jsval\<close>. The fields of a cue that the
  import handler copies without conversion (\<open>id\<close>, \<open>label\<close>, \<open>color\<close>) hold such a
  value; the \<open>Cue\<close> interface declares them as strings, but the handler stores any
  truthy value as it is.
\<close>

datatype jsval =
    Undefined
  | Null
  | Bool bool
  | Num real
  | Str string
  | Arr "jsval list"
  | Obj "(string \<times> jsval) list"

datatype js_error = TypeError | SyntaxError

text \<open>\<open>ToBoolean\<close>: what \<open>if (v)\<close> and \<open>v || d\<close> test.\<close>

fun truthy :: "jsval \<Rightarrow> bool" where
  "truthy Undefined = False"
| "truthy Null = False"
| "truthy (Bool b) = b"
| "truthy (Num n) = (n \<noteq> 0)"
| "truthy (Str s) = (s \<noteq> [])"
| "truthy (Arr vs) = True"
| "truthy (Obj kvs) = True"

text \<open>
  Property read \<open>v.k\<close> for the keys the program reads (\<open>cues\<close>, \<open>id\<close>, \<open>time\<close>,
  \<open>label\<close>, \<open>color\<close>, \<open>row\<close>), none of which is a property of a prototype: reading
  from \<open>null\<close> or \<open>undefined\<close> throws a \<open>TypeError\<close>, an object gives its own
  property or \<open>undefined\<close>, every other value gives \<open>undefined\<close>.
\<close>

fun get_prop :: "jsval \<Rightarrow> string \<Rightarrow> js_error + jsval" where
  "get_prop Undefined k = Inl TypeError"
| "get_prop Null k = Inl TypeError"
| "get_prop (Obj kvs) k = Inr (case map_of kvs k of None \<Rightarrow> Undefined | Some v \<Rightarrow> v)"
| "get_prop v k = Inr Undefined"

text \<open>
  \<open>a === b\<close>. On primitive values strict equality compares the values; two
  arrays or objects are equal only when they are the same reference, which this
  value model does not record, so the statements that depend on \<open>===\<close> are made
  for a primitive operand (the ids that the editor itself creates are strings).
\<close>

fun primitive :: "jsval \<Rightarrow> bool" where
  "primitive (Arr vs) = False"
| "primitive (Obj kvs) = False"
| "primitive v = True"

definition strict_eq :: "jsval \<Rightarrow> jsval \<Rightarrow> bool" where
  "strict_eq a b = (a = b)"

section \<open>Data model (types.ts)\<close>

record cue =
  id_cue :: jsval
  time :: real
  label :: jsval
  color :: jsval
  row :: real

text \<open>\<open>Partial<Cue>\<close>: the fields an update carries.\<close>

record cue_updates =
  upd_id :: "jsval option"
  upd_time :: "real option"
  upd_label :: "jsval option"
  upd_color :: "jsval option"
  upd_row :: "real option"

text \<open>The object spread \<open>{ ...c, ...updates }\<close>.\<close>

definition spread :: "cue \<Rightarrow> cue_updates \<Rightarrow> cue" where
  "spread c u =
     \<lparr> id_cue = (case upd_id u of None \<Rightarrow> id_cue c | Some v \<Rightarrow> v),
       time = (case upd_time u of None \<Rightarrow> time c | Some v \<Rightarrow> v),
       label = (case upd_label u of None \<Rightarrow> label c | Some v \<Rightarrow> v),
       color = (case upd_color u of None \<Rightarrow> color c | Some v \<Rightarrow> v),
       row = (case upd_row u of None \<Rightarrow> row c | Some v \<Rightarrow> v) \<rparr>"

section \<open>Timeline (the view-model component)\<close>

definition MIN_ZOOM :: real where "MIN_ZOOM = 10"
definition MAX_ZOOM :: real where "MAX_ZOOM = 600"
definition NUM_ROWS :: real where "NUM_ROWS = 4"

text \<open>The component's state hooks.\<close>

record timeline =
  zoom :: real
  isFollowing :: bool
  viewCenterTime :: real
  draggingCueId :: jsval
  isPanning :: bool
  dragStartX :: real
  dragStartTime :: real
  snapToGrid :: bool

text \<open>
  \<open>containerRef.current\<close>: absent (\<open>None\<close>) before the viewport is mounted,
  otherwise the element with its \<open>clientWidth\<close>, \<open>clientHeight\<close> and the rectangle
  that \<open>getBoundingClientRect()\<close> returns.
\<close>

record container =
  clientWidth :: real
  clientHeight :: real
  rect_left :: real
  rect_top :: real
  rect_width :: real
  rect_height :: real

record mouse_event =
  clientX :: real
  clientY :: real

text \<open>The callbacks the component receives as props, as the calls it makes.\<close>

datatype callback =
    OnSeek real
  | OnUpdateCue jsval cue_updates

text \<open>\<open>getCueScreenX\<close>.\<close>

definition getCueScreenX :: "timeline \<Rightarrow> container option \<Rightarrow> real \<Rightarrow> real" where
  "getCueScreenX tm cont t =
     (case cont of
        None \<Rightarrow> - 1000
      | Some el \<Rightarrow>
          let width = clientWidth el;
              halfWindow = width / 2;
              startT = viewCenterTime tm - halfWindow / zoom tm
          in (t - startT) * zoom tm)"

text \<open>
  The time under the pointer, as \<open>handleGlobalMouseUp\<close> (\<open>clickTime\<close>) and the
  cue-drag branch of \<open>handleGlobalMouseMove\<close> (\<open>newTime\<close> before clamping) compute it.
\<close>

definition clickTime :: "timeline \<Rightarrow> container \<Rightarrow> mouse_event \<Rightarrow> real" where
  "clickTime tm el e =
     (let halfWindow = rect_width el / 2;
          mouseX = clientX e - rect_left el;
          startT = viewCenterTime tm - halfWindow / zoom tm
      in mouseX / zoom tm + startT)"

text \<open>\<open>Math.max(0, Math.min(duration, t))\<close>.\<close>

definition clampTime :: "real \<Rightarrow> real \<Rightarrow> real" where
  "clampTime dur t = max 0 (min dur t)"

text \<open>\<open>Math.round\<close> rounds a half towards plus infinity: \<open>floor (x + 1/2)\<close>.\<close>

definition Math_round :: "real \<Rightarrow> real" where
  "Math_round x = of_int \<lfloor>x + 1 / 2\<rfloor>"

definition handleMouseDown :: "timeline \<Rightarrow> mouse_event \<Rightarrow> timeline" where
  "handleMouseDown tm e =
     tm \<lparr> isPanning := True,
          dragStartX := clientX e,
          dragStartTime := viewCenterTime tm,
          isFollowing := False \<rparr>"

text \<open>The \<open>onMouseDown\<close> of a cue marker (it stops the propagation to the viewport).\<close>

definition cueMouseDown :: "timeline \<Rightarrow> cue \<Rightarrow> timeline" where
  "cueMouseDown tm c = tm \<lparr> draggingCueId := id_cue c \<rparr>"

definition dragTime :: "timeline \<Rightarrow> real \<Rightarrow> container \<Rightarrow> mouse_event \<Rightarrow> real" where
  "dragTime tm dur el e =
     (let newTime = clampTime dur (clickTime tm el e)
      in if snapToGrid tm then Math_round (newTime * 10) / 10 else newTime)"

definition dragRow :: "container \<Rightarrow> mouse_event \<Rightarrow> real" where
  "dragRow el e =
     (let mouseY = clientY e - rect_top el;
          rowHeight = rect_height el / NUM_ROWS;
          newRow = of_int \<lfloor>mouseY / rowHeight\<rfloor>
      in max 0 (min (NUM_ROWS - 1) newRow))"

definition handleGlobalMouseMove ::
    "real \<Rightarrow> container option \<Rightarrow> timeline \<Rightarrow> mouse_event \<Rightarrow> timeline \<times> callback list" where
  "handleGlobalMouseMove dur cont tm e =
     (if truthy (draggingCueId tm) then
        (case cont of
           None \<Rightarrow> (tm, [])
         | Some el \<Rightarrow>
             (tm, [OnUpdateCue (draggingCueId tm)
                     \<lparr> upd_id = None, upd_time = Some (dragTime tm dur el e),
                       upd_label = None, upd_color = None,
                       upd_row = Some (dragRow el e) \<rparr>]))
      else if isPanning tm then
        (let deltaPixels = clientX e - dragStartX tm;
             deltaTime = deltaPixels / zoom tm;
             newCenter = max 0 (min dur (dragStartTime tm - deltaTime))
         in (tm \<lparr> viewCenterTime := newCenter \<rparr>, []))
      else (tm, []))"

definition handleGlobalMouseUp ::
    "real \<Rightarrow> container option \<Rightarrow> timeline \<Rightarrow> mouse_event \<Rightarrow> timeline \<times> callback list" where
  "handleGlobalMouseUp dur cont tm e =
     (let tm1 = (if truthy (draggingCueId tm) then tm \<lparr> draggingCueId := Null \<rparr> else tm)
      in if isPanning tm then
           (tm1 \<lparr> isPanning := False \<rparr>,
            if \<bar>clientX e - dragStartX tm\<bar> < 5 then
              (case cont of
                 None \<Rightarrow> []
               | Some el \<Rightarrow> [OnSeek (clampTime dur (clickTime tm el e))])
            else [])
         else (tm1, []))"

text \<open>
  A run of pointer moves, and the whole gesture that starts with a pointer-down on
  the background of the viewport and ends with the pointer-up; the calls made to the
  props are collected in order.
\<close>

fun pointerMoves ::
    "real \<Rightarrow> container option \<Rightarrow> timeline \<Rightarrow> mouse_event list \<Rightarrow> timeline \<times> callback list" where
  "pointerMoves dur cont tm [] = (tm, [])"
| "pointerMoves dur cont tm (e # es) =
     (let (tm1, cs1) = handleGlobalMouseMove dur cont tm e;
          (tm2, cs2) = pointerMoves dur cont tm1 es
      in (tm2, cs1 @ cs2))"

definition panGesture ::
    "real \<Rightarrow> container option \<Rightarrow> timeline \<Rightarrow> mouse_event \<Rightarrow> mouse_event list \<Rightarrow> mouse_event
      \<Rightarrow> timeline \<times> callback list" where
  "panGesture dur cont tm down es up =
     (let tm0 = handleMouseDown tm down;
          (tm1, cs1) = pointerMoves dur cont tm0 es;
          (tm2, cs2) = handleGlobalMouseUp dur cont tm1 up
      in (tm2, cs1 @ cs2))"

fun seeks :: "callback list \<Rightarrow> real list" where
  "seeks [] = []"
| "seeks (OnSeek t # cs) = t # seeks cs"
| "seeks (OnUpdateCue i u # cs) = seeks cs"

definition zoom_in_bounds :: "timeline \<Rightarrow> bool" where
  "zoom_in_bounds tm = (MIN_ZOOM \<le> zoom tm \<and> zoom tm \<le> MAX_ZOOM)"

section \<open>App (the cue store and the transport)\<close>

record audio_buffer =
  buffer_duration :: real
  channelData :: "real list"

record app =
  audioBuffer :: "audio_buffer option"
  fileName :: "string option"
  isPlaying :: bool
  currentTime :: real
  duration :: real
  cues :: "cue list"
  sourceNodeRef :: "audio_buffer option"
  startTimeRef :: real
  pauseTimeRef :: real

definition playAudio :: "real \<Rightarrow> app \<Rightarrow> real \<Rightarrow> app" where
  \<comment> \<open>\<open>now\<close> is \<open>audioCtx.currentTime\<close>, the clock of the audio context\<close>
  "playAudio now s startOffset =
     (case audioBuffer s of
        None \<Rightarrow> s
      | Some b \<Rightarrow>
          s \<lparr> sourceNodeRef := Some b,
              startTimeRef := now - startOffset,
              isPlaying := True \<rparr>)"

definition pauseAudio :: "app \<Rightarrow> app" where
  "pauseAudio s =
     (if sourceNodeRef s \<noteq> None then s \<lparr> sourceNodeRef := None \<rparr> else s)
       \<lparr> pauseTimeRef := currentTime s, isPlaying := False \<rparr>"

definition handleStop :: "app \<Rightarrow> app" where
  "handleStop s = (pauseAudio s) \<lparr> currentTime := 0, pauseTimeRef := 0 \<rparr>"

definition handleSeek :: "real \<Rightarrow> app \<Rightarrow> real \<Rightarrow> app" where
  "handleSeek now s t =
     (let wasPlaying = isPlaying s;
          s1 = (if wasPlaying then pauseAudio s else s);
          s2 = s1 \<lparr> currentTime := t, pauseTimeRef := t \<rparr>
      in if wasPlaying then playAudio now s2 t else s2)"

definition handleUpdateCue :: "app \<Rightarrow> jsval \<Rightarrow> cue_updates \<Rightarrow> app" where
  "handleUpdateCue s i updates =
     s \<lparr> cues := map (\<lambda>c. if strict_eq (id_cue c) i then spread c updates else c) (cues s) \<rparr>"

definition handleDeleteCue :: "app \<Rightarrow> jsval \<Rightarrow> app" where
  "handleDeleteCue s i = s \<lparr> cues := filter (\<lambda>c. \<not> strict_eq (id_cue c) i) (cues s) \<rparr>"

text \<open>
  The wiring of the \<open>Timeline\<close> props in the \<open>App\<close> markup: \<open>onSeek={handleSeek}\<close>,
  \<open>onUpdateCue={handleUpdateCue}\<close>.
\<close>

fun onCallback :: "real \<Rightarrow> app \<Rightarrow> callback \<Rightarrow> app" where
  "onCallback now s (OnSeek t) = handleSeek now s t"
| "onCallback now s (OnUpdateCue i u) = handleUpdateCue s i u"

text \<open>
  A pointer move over the whole editor: the \<open>Timeline\<close> handler runs with the
  \<open>duration\<close> prop of the \<open>App\<close>, and the calls it makes are applied to the \<open>App\<close>.
\<close>

definition editorMouseMove ::
    "real \<Rightarrow> container option \<Rightarrow> app \<times> timeline \<Rightarrow> mouse_event \<Rightarrow> app \<times> timeline" where
  "editorMouseMove now cont st e =
     (let (tm1, cs) = handleGlobalMouseMove (duration (fst st)) cont (snd st) e
      in (foldl (onCallback now) (fst st) cs, tm1))"

section \<open>App: loading audio, importing and exporting cues\<close>

text \<open>The messages shown with \<open>alert\<close>.\<close>

datatype alert =
    Failed_to_decode_audio_file
      \<comment> \<open>"Failed to decode audio file."\<close>
  | Invalid_JSON_format_missing_cues_array
      \<comment> \<open>"Invalid JSON format: missing 'cues' array."\<close>
  | Failed_to_parse_JSON_file
      \<comment> \<open>"Failed to parse JSON file."\<close>

text \<open>
  An audio file chosen by the user. Reading and decoding are done by the browser:
  \<open>file.arrayBuffer()\<close> may reject (\<open>None\<close>), and \<open>decodeAudioData\<close> either resolves
  with a buffer or rejects.
\<close>

datatype audio_payload = Decodable audio_buffer | Undecodable

record audio_file =
  af_name :: string
  af_bytes :: "audio_payload option"

definition handleFileUpload :: "app \<Rightarrow> audio_file option \<Rightarrow> app \<times> alert list" where
  "handleFileUpload s fileOpt =
     (case fileOpt of
        None \<Rightarrow> (s, [])
      | Some file \<Rightarrow>
          let s1 = handleStop s in
          (case af_bytes file of
             None \<Rightarrow> (s1, [])
           | Some (Decodable decodedBuffer) \<Rightarrow>
               (s1 \<lparr> audioBuffer := Some decodedBuffer,
                      duration := buffer_duration decodedBuffer,
                      fileName := Some (af_name file),
                      cues := [] \<rparr>, [])
           | Some Undecodable \<Rightarrow> (s1, [Failed_to_decode_audio_file])))"

text \<open>
  The text of a file is either the JSON text of a value or not JSON at all.
  \<open>JSON.stringify\<close> followed by \<open>JSON.parse\<close> gives the value back with the
  properties whose value is \<open>undefined\<close> left out and \<open>undefined\<close> array elements
  turned into \<open>null\<close>.
\<close>

datatype file_text = JsonText jsval | Malformed

fun to_json :: "jsval \<Rightarrow> jsval" where
  "to_json (Arr vs) = Arr (map (\<lambda>v. if v = Undefined then Null else to_json v) vs)"
| "to_json (Obj kvs) =
     Obj (map (\<lambda>kv. (fst kv, to_json (snd kv))) (filter (\<lambda>kv. snd kv \<noteq> Undefined) kvs))"
| "to_json v = v"

definition JSON_stringify :: "jsval \<Rightarrow> file_text" where
  "JSON_stringify v = JsonText (to_json v)"

fun JSON_parse :: "file_text \<Rightarrow> js_error + jsval" where
  "JSON_parse (JsonText v) = Inr (to_json v)"
| "JSON_parse Malformed = Inl SyntaxError"

record json_file =
  jf_text :: "file_text option"

text \<open>
  \<open>Number(v)\<close>, with \<open>None\<close> for \<open>NaN\<close>. The conversion of a string
  (\<open>StringToNumber\<close>) and of an array or object (\<open>ToPrimitive\<close>, which can throw)
  belongs to the engine and is the parameter \<open>coerce\<close>.
\<close>

fun ToNumber :: "(jsval \<Rightarrow> js_error + real option) \<Rightarrow> jsval \<Rightarrow> js_error + real option" where
  "ToNumber coerce Undefined = Inr None"
| "ToNumber coerce Null = Inr (Some 0)"
| "ToNumber coerce (Bool b) = Inr (Some (if b then 1 else 0))"
| "ToNumber coerce (Num n) = Inr (Some n)"
| "ToNumber coerce v = coerce v"

text \<open>
  The function mapped over \<open>data.cues\<close>. \<open>rng\<close> is the sequence of values that
  \<open>crypto.randomUUID()\<close> returns and \<open>k\<close> the number of calls made so far; the
  fields are evaluated in the order of the object literal.
\<close>

definition importCue ::
    "(jsval \<Rightarrow> js_error + real option) \<Rightarrow> (nat \<Rightarrow> string) \<Rightarrow> nat \<Rightarrow> jsval
      \<Rightarrow> js_error + (cue \<times> nat)" where
  "importCue coerce rng k c =
     (case get_prop c ''id'' of Inl err \<Rightarrow> Inl err | Inr idv \<Rightarrow>
      case get_prop c ''time'' of Inl err \<Rightarrow> Inl err | Inr tv \<Rightarrow>
      case ToNumber coerce tv of Inl err \<Rightarrow> Inl err | Inr n \<Rightarrow>
      case get_prop c ''label'' of Inl err \<Rightarrow> Inl err | Inr lv \<Rightarrow>
      case get_prop c ''color'' of Inl err \<Rightarrow> Inl err | Inr cv \<Rightarrow>
      case get_prop c ''row'' of Inl err \<Rightarrow> Inl err | Inr rv \<Rightarrow>
        Inr (\<lparr> id_cue = (if truthy idv then idv else Str (rng k)),
                time = (case n of None \<Rightarrow> 0 | Some x \<Rightarrow> if x \<noteq> 0 then x else 0),
                label = (if truthy lv then lv else Str ''Imported Cue''),
                color = (if truthy cv then cv else Str ''#ef4444''),
                row = (case rv of Num r \<Rightarrow> r | _ \<Rightarrow> 0) \<rparr>,
             if truthy idv then k else Suc k))"

fun importCues ::
    "(jsval \<Rightarrow> js_error + real option) \<Rightarrow> (nat \<Rightarrow> string) \<Rightarrow> nat \<Rightarrow> jsval list
      \<Rightarrow> js_error + cue list" where
  "importCues coerce rng k [] = Inr []"
| "importCues coerce rng k (c # cs) =
     (case importCue coerce rng k c of
        Inl err \<Rightarrow> Inl err
      | Inr (q, k1) \<Rightarrow>
          (case importCues coerce rng k1 cs of
             Inl err \<Rightarrow> Inl err
           | Inr qs \<Rightarrow> Inr (q # qs)))"

text \<open>
  \<open>handleCueImport\<close>. The body of the \<open>try\<close> block is the inner computation; the
  \<open>catch\<close> turns whatever it throws into the parse-failure alert.
\<close>

definition importTry ::
    "(jsval \<Rightarrow> js_error + real option) \<Rightarrow> (nat \<Rightarrow> string) \<Rightarrow> app \<Rightarrow> file_text
      \<Rightarrow> js_error + (app \<times> alert list)" where
  "importTry coerce rng s txt =
     (case JSON_parse txt of Inl err \<Rightarrow> Inl err | Inr data \<Rightarrow>
      case get_prop data ''cues'' of Inl err \<Rightarrow> Inl err | Inr cv \<Rightarrow>
        (case cv of
           Arr records \<Rightarrow>
             (case importCues coerce rng 0 records of
                Inl err \<Rightarrow> Inl err
              | Inr importedCues \<Rightarrow> Inr (s \<lparr> cues := importedCues \<rparr>, []))
         | _ \<Rightarrow> Inr (s, [Invalid_JSON_format_missing_cues_array])))"

definition handleCueImport ::
    "(jsval \<Rightarrow> js_error + real option) \<Rightarrow> (nat \<Rightarrow> string) \<Rightarrow> app \<Rightarrow> json_file option
      \<Rightarrow> app \<times> alert list" where
  "handleCueImport coerce rng s fileOpt =
     (case fileOpt of
        None \<Rightarrow> (s, [])
      | Some file \<Rightarrow>
          (case jf_text file of
             None \<Rightarrow> (s, [])
           | Some txt \<Rightarrow>
               (case importTry coerce rng s txt of
                  Inl err \<Rightarrow> (s, [Failed_to_parse_JSON_file])
                | Inr r \<Rightarrow> r)))"

text \<open>\<open>handleExport\<close>: the downloaded file, its name and its text.\<close>

definition cue_object :: "cue \<Rightarrow> jsval" where
  "cue_object c =
     Obj [(''id'', id_cue c), (''time'', Num (time c)), (''label'', label c),
          (''color'', color c), (''row'', Num (row c))]"

record download =
  dl_name :: string
  dl_text :: file_text

definition handleExport :: "string \<Rightarrow> app \<Rightarrow> download" where
  \<comment> \<open>\<open>exportDate\<close> is \<open>new Date().toISOString()\<close>\<close>
  "handleExport exportDate s =
     (let data = Obj [(''projectName'', (case fileName s of None \<Rightarrow> Null | Some n \<Rightarrow> Str n)),
                      (''duration'', Num (duration s)),
                      (''cues'', Arr (map cue_object (cues s))),
                      (''exportDate'', Str exportDate)]
      in \<lparr> dl_name = (case fileName s of None \<Rightarrow> ''project'' | Some n \<Rightarrow>
                         if n \<noteq> [] then n else ''project'') @ ''_cues.json'',
           dl_text = JSON_stringify data \<rparr>)"

text \<open>Exporting, then choosing the downloaded file in the import dialog.\<close>

definition exportThenImport ::
    "(jsval \<Rightarrow> js_error + real option) \<Rightarrow> (nat \<Rightarrow> string) \<Rightarrow> string \<Rightarrow> app \<Rightarrow> app \<times> alert list" where
  "exportThenImport coerce rng exportDate s =
     handleCueImport coerce rng s (Some \<lparr> jf_text = Some (dl_text (handleExport exportDate s)) \<rparr>)"

text \<open>The spec's "the document has a \<open>cues\<close> array", as the entries of that array.\<close>

definition cues_array :: "jsval \<Rightarrow> jsval list option" where
  "cues_array data =
     (case get_prop data ''cues'' of Inr (Arr records) \<Rightarrow> Some records | _ \<Rightarrow> None)"

text \<open>A value that \<open>JSON.stringify\<close> and \<open>JSON.parse\<close> give back as it is.\<close>

definition json_value :: "jsval \<Rightarrow> bool" where
  "json_value v = (to_json v = v)"

section \<open>CueList (the cue list projector)\<close>

text \<open>
  \<open>[...cues].sort((a, b) => a.time - b.time)\<close>: the built-in sort is stable and the
  comparator orders by ascending \<open>time\<close>.
\<close>

definition sortedCues :: "cue list \<Rightarrow> cue list" where
  "sortedCues cs = sort_key time cs"

text \<open>\<open>Array.prototype.findIndex\<close>: the first index whose element passes, or \<open>-1\<close>.\<close>

fun findIndex :: "('a \<Rightarrow> bool) \<Rightarrow> 'a list \<Rightarrow> int" where
  "findIndex p [] = - 1"
| "findIndex p (x # xs) =
     (if p x then 0 else (let i = findIndex p xs in if i = - 1 then - 1 else i + 1))"

definition nextIndex :: "cue list \<Rightarrow> real \<Rightarrow> int" where
  "nextIndex cs now = findIndex (\<lambda>c. time c > now) (sortedCues cs)"

definition scrollIndex :: "cue list \<Rightarrow> real \<Rightarrow> int" where
  "scrollIndex cs now =
     (if nextIndex cs now = - 1 then int (length (sortedCues cs)) - 1 else nextIndex cs now)"

definition nextCue :: "cue list \<Rightarrow> real \<Rightarrow> cue option" where
  "nextCue cs now =
     (if nextIndex cs now \<noteq> - 1 then Some (sortedCues cs ! nat (nextIndex cs now)) else None)"

text \<open>What the body of \<open>sortedCues.map((cue, idx) => ...)\<close> computes for one table row.\<close>

record cue_row =
  diff :: real
  isPast :: bool
  isNow :: bool
  prevTime :: real
  windowDuration :: real
  progressPercent :: real
  isActiveSegment :: bool

definition cueRow :: "cue list \<Rightarrow> real \<Rightarrow> nat \<Rightarrow> cue_row" where
  "cueRow srt now idx =
     (let cue = srt ! idx;
          diff = time cue - now;
          isPast = (diff < - 0.5);
          isNow = (\<not> isPast \<and> diff \<le> 0);
          prevTime = (if idx = 0 then 0 else time (srt ! (idx - 1)));
          windowDuration = time cue - prevTime;
          (progressPercent, isActiveSegment) =
            (if now \<ge> prevTime \<and> now \<le> time cue then
               (if windowDuration > 0 then ((now - prevTime) / windowDuration) * 100 else 100,
                True)
             else if now > time cue then (100, False)
             else (0, False))
      in \<lparr> diff = diff, isPast = isPast, isNow = isNow, prevTime = prevTime,
           windowDuration = windowDuration, progressPercent = progressPercent,
           isActiveSegment = isActiveSegment \<rparr>)"

definition cueListRows :: "cue list \<Rightarrow> real \<Rightarrow> cue_row list" where
  "cueListRows cs now =
     map (cueRow (sortedCues cs) now) [0 ..< length (sortedCues cs)]"

section \<open>Sample data\<close>

definition sample_timeline :: timeline where
  "sample_timeline =
     \<lparr> zoom = 100, isFollowing = True, viewCenterTime = 5, draggingCueId = Null,
       isPanning = False, dragStartX = 0, dragStartTime = 0, snapToGrid = True \<rparr>"

definition sample_container :: container where
  "sample_container =
     \<lparr> clientWidth = 800, clientHeight = 300, rect_left = 20, rect_top = 10,
       rect_width = 800, rect_height = 300 \<rparr>"

definition sample_cues :: "cue list" where
  "sample_cues =
     [ \<lparr> id_cue = Str ''a'', time = 4, label = Str ''Cue 1'', color = Str ''#ef4444'', row = 0 \<rparr>,
       \<lparr> id_cue = Str ''b'', time = 1, label = Str ''Cue 2'', color = Str ''#22c55e'', row = 2 \<rparr> ]"

definition sample_app :: app where
  "sample_app =
     \<lparr> audioBuffer = Some \<lparr> buffer_duration = 10, channelData = [] \<rparr>,
       fileName = Some ''song.mp3'', isPlaying = True, currentTime = 5, duration = 10,
       cues = sample_cues,
       sourceNodeRef = Some \<lparr> buffer_duration = 10, channelData = [] \<rparr>,
       startTimeRef = 0, pauseTimeRef = 0 \<rparr>"

text \<open>The sample timeline after a pointer-down on the marker of the first sample cue.\<close>

definition dragging_timeline :: timeline where
  "dragging_timeline = cueMouseDown sample_timeline (hd sample_cues)"

text \<open>
  A stand-in for the engine in the samples: it converts the empty string and an
  unsigned decimal integer as \<open>StringToNumber\<close> does and everything else to \<open>NaN\<close>.
\<close>

fun sample_coerce :: "jsval \<Rightarrow> js_error + real option" where
  "sample_coerce (Str s) =
     Inr (if list_all (\<lambda>c. 48 \<le> (of_char c :: nat) \<and> (of_char c :: nat) \<le> 57) s
          then Some (real (foldl (\<lambda>a c. 10 * a + (of_char c - 48)) 0 s))
          else None)"
| "sample_coerce v = Inr None"

definition sample_rng :: "nat \<Rightarrow> string" where
  "sample_rng k = ''uuid-'' @ replicate k CHR ''x''"

definition undecodable_file :: audio_file where
  "undecodable_file = \<lparr> af_name = ''noise.mp3'', af_bytes = Some Undecodable \<rparr>"

text \<open>Files for the samples: a JSON text that does not parse, and a document without \<open>cues\<close>.\<close>

definition malformed_file :: json_file where
  "malformed_file = \<lparr> jf_text = Some Malformed \<rparr>"

definition no_cues_file :: json_file where
  "no_cues_file = \<lparr> jf_text = Some (JsonText (Obj [(''projectName'', Str ''song.mp3'')])) \<rparr>"

text \<open>
  The label field of the cue editor cleared for the first sample cue:
  \<open>onUpdateCue(cue.id, { label: e.target.value })\<close> with an empty input.
\<close>

definition cleared_label_app :: app where
  "cleared_label_app =
     handleUpdateCue sample_app (Str ''a'')
       \<lparr> upd_id = None, upd_time = None, upd_label = Some (Str []), upd_color = None,
         upd_row = None \<rparr>"

text \<open>The file \<open>{"cues": [{"time": 3, "label": "Intro"}, null]}\<close>.\<close>

definition null_record_file :: json_file where
  "null_record_file =
     \<lparr> jf_text = Some (JsonText (Obj [(''cues'',
         Arr [Obj [(''time'', Num 3), (''label'', Str ''Intro'')], Null])])) \<rparr>"




section \<open>Auxiliary facts\<close>

lemma Math_round_near: "\<bar>Math_round z - z\<bar> \<le> 1 / 2"
  unfolding Math_round_def by linarith

lemma snap_is_tenth: "\<exists>k::int. Math_round (c * 10) / 10 = of_int k / 10"
  unfolding Math_round_def by blast

lemma snap_near: "\<bar>Math_round (c * 10) / 10 - c\<bar> \<le> 1 / 20"
  using Math_round_near [of "c * 10"] by (simp add: field_simps abs_le_iff)

lemma clampTime_range: "0 \<le> dur \<Longrightarrow> 0 \<le> clampTime dur t \<and> clampTime dur t \<le> dur"
  by (simp add: clampTime_def)

lemma dragRow_range: "0 \<le> dragRow el e \<and> dragRow el e \<le> NUM_ROWS - 1"
  by (simp add: dragRow_def Let_def NUM_ROWS_def)

lemma dragRow_int: "\<exists>k::int. dragRow el e = of_int k \<and> 0 \<le> k \<and> k \<le> 3"
proof -
  define k where "k = \<lfloor>(clientY e - rect_top el) / (rect_height el / NUM_ROWS)\<rfloor>"
  have "dragRow el e = of_int (max 0 (min 3 k))"
    by (simp add: dragRow_def Let_def NUM_ROWS_def k_def max_def min_def)
  then show ?thesis by (intro exI [of _ "max 0 (min 3 k)"]) simp
qed

lemma seeks_append: "seeks (xs @ ys) = seeks xs @ seeks ys"
  by (induction xs rule: seeks.induct) simp_all

lemma pointerMoves_keep:
  "isPanning (fst (pointerMoves dur cont tm es)) = isPanning tm
   \<and> dragStartX (fst (pointerMoves dur cont tm es)) = dragStartX tm
   \<and> dragStartTime (fst (pointerMoves dur cont tm es)) = dragStartTime tm
   \<and> zoom (fst (pointerMoves dur cont tm es)) = zoom tm
   \<and> draggingCueId (fst (pointerMoves dur cont tm es)) = draggingCueId tm
   \<and> seeks (snd (pointerMoves dur cont tm es)) = []"
proof (induction es arbitrary: tm)
  case Nil
  then show ?case by simp
next
  case (Cons e es)
  obtain tm1 cs1 where h: "handleGlobalMouseMove dur cont tm e = (tm1, cs1)"
    by (cases "handleGlobalMouseMove dur cont tm e")
  have k: "isPanning tm1 = isPanning tm \<and> dragStartX tm1 = dragStartX tm
      \<and> dragStartTime tm1 = dragStartTime tm \<and> zoom tm1 = zoom tm
      \<and> draggingCueId tm1 = draggingCueId tm \<and> seeks cs1 = []"
    using h by (auto simp: handleGlobalMouseMove_def Let_def split: if_splits option.splits)
  show ?case
    using Cons.IH [of tm1] h k by (simp add: split_beta seeks_append)
qed

lemma pan_move_center:
  assumes "\<not> truthy (draggingCueId tm)" and "isPanning tm"
  shows "handleGlobalMouseMove dur cont tm e =
     (tm \<lparr> viewCenterTime := max 0 (min dur (dragStartTime tm - (clientX e - dragStartX tm) / zoom tm)) \<rparr>, [])"
  using assms by (simp add: handleGlobalMouseMove_def Let_def)

lemma move_center_range:
  assumes "0 \<le> dur" and "0 \<le> viewCenterTime tm \<and> viewCenterTime tm \<le> dur"
  shows "0 \<le> viewCenterTime (fst (handleGlobalMouseMove dur cont tm e))
       \<and> viewCenterTime (fst (handleGlobalMouseMove dur cont tm e)) \<le> dur"
  using assms by (simp add: handleGlobalMouseMove_def Let_def split: option.splits)

lemma pointerMoves_center_range:
  assumes "0 \<le> dur" and "0 \<le> viewCenterTime tm \<and> viewCenterTime tm \<le> dur"
  shows "0 \<le> viewCenterTime (fst (pointerMoves dur cont tm es))
       \<and> viewCenterTime (fst (pointerMoves dur cont tm es)) \<le> dur"
  using assms(2)
proof (induction es arbitrary: tm)
  case Nil
  then show ?case by simp
next
  case (Cons e es)
  from move_center_range [OF assms(1) Cons.prems, of cont e]
  have "0 \<le> viewCenterTime (fst (pointerMoves dur cont (fst (handleGlobalMouseMove dur cont tm e)) es))
       \<and> viewCenterTime (fst (pointerMoves dur cont (fst (handleGlobalMouseMove dur cont tm e)) es)) \<le> dur"
    by (rule Cons.IH)
  then show ?case by (simp add: split_beta)
qed

lemma pointerMoves_pan_nonempty_range:
  assumes "0 \<le> dur" and "\<not> truthy (draggingCueId tm)" and "isPanning tm" and "es \<noteq> []"
  shows "0 \<le> viewCenterTime (fst (pointerMoves dur cont tm es))
       \<and> viewCenterTime (fst (pointerMoves dur cont tm es)) \<le> dur"
proof (cases es)
  case Nil
  with assms(4) show ?thesis by simp
next
  case (Cons e es')
  have "0 \<le> viewCenterTime (fst (handleGlobalMouseMove dur cont tm e))
      \<and> viewCenterTime (fst (handleGlobalMouseMove dur cont tm e)) \<le> dur"
    using assms(1) by (simp add: pan_move_center [OF assms(2,3)])
  from pointerMoves_center_range [OF assms(1) this, of cont es']
  show ?thesis by (simp add: Cons split_beta)
qed

lemma dragging_timeline_simps:
  "draggingCueId dragging_timeline = Str ''a''" "zoom dragging_timeline = 100"
  "viewCenterTime dragging_timeline = 5" "snapToGrid dragging_timeline"
  by (simp_all add: dragging_timeline_def cueMouseDown_def sample_timeline_def sample_cues_def)

lemma findIndex_lower: "- 1 \<le> findIndex p xs"
  by (induction xs) (simp_all add: Let_def)

lemma findIndex_none: "findIndex p xs = - 1 \<longleftrightarrow> (\<forall>x \<in> set xs. \<not> p x)"
proof (induction xs)
  case Nil
  then show ?case by simp
next
  case (Cons x xs)
  then show ?case
    using findIndex_lower [of p xs] by (auto simp: Let_def)
qed

lemma findIndex_first:
  "findIndex p xs \<noteq> - 1 \<Longrightarrow>
     0 \<le> findIndex p xs \<and> nat (findIndex p xs) < length xs \<and> p (xs ! nat (findIndex p xs))
     \<and> (\<forall>j < nat (findIndex p xs). \<not> p (xs ! j))"
proof (induction xs)
  case Nil
  then show ?case by simp
next
  case (Cons x xs)
  show ?case
  proof (cases "p x")
    case True
    then show ?thesis by simp
  next
    case False
    with Cons.prems have n: "findIndex p xs \<noteq> - 1"
      by (auto simp: Let_def)
    from Cons.IH [OF n] have ih: "0 \<le> findIndex p xs" "nat (findIndex p xs) < length xs"
      "p (xs ! nat (findIndex p xs))" "\<forall>j < nat (findIndex p xs). \<not> p (xs ! j)"
      by simp_all
    have e: "findIndex p (x # xs) = findIndex p xs + 1"
      using False n by (simp add: Let_def)
    have s: "nat (findIndex p xs + 1) = Suc (nat (findIndex p xs))"
      using ih(1) by simp
    show ?thesis
      using ih False by (auto simp: e s nth_Cons split: nat.splits)
  qed
qed

lemma sortedCues_sorted: "sorted (map time (sortedCues cs))"
  by (simp add: sortedCues_def)

lemma sortedCues_mset: "mset (sortedCues cs) = mset cs"
  by (simp add: sortedCues_def)

lemma sortedCues_length: "length (sortedCues cs) = length cs"
  by (simp add: sortedCues_def)

lemma sortedCues_set: "set (sortedCues cs) = set cs"
  by (simp add: sortedCues_def)

lemma nextCue_None: "nextCue cs now = None \<longleftrightarrow> (\<forall>c \<in> set cs. time c \<le> now)"
  by (auto simp: nextCue_def nextIndex_def findIndex_none sortedCues_set not_less)

lemma nextCue_Some:
  assumes "nextCue cs now = Some c"
  shows "\<exists>i < length cs. sortedCues cs ! i = c \<and> now < time c
           \<and> (\<forall>j < i. time (sortedCues cs ! j) \<le> now)"
proof -
  let ?k = "findIndex (\<lambda>c. time c > now) (sortedCues cs)"
  from assms have n: "?k \<noteq> - 1" and c: "c = sortedCues cs ! nat ?k"
    by (auto simp: nextCue_def nextIndex_def split: if_splits)
  from findIndex_first [OF n] c show ?thesis
    by (intro exI [of _ "nat ?k"]) (simp add: sortedCues_length not_less)
qed

lemma cueListRows_nth:
  "i < length cs \<Longrightarrow> cueListRows cs now ! i = cueRow (sortedCues cs) now i"
  by (simp add: cueListRows_def sortedCues_length)

lemma cueRow_status:
  "isPast (cueRow srt now i) = (time (srt ! i) - now < - (1 / 2))"
  "isNow (cueRow srt now i) = (- (1 / 2) \<le> time (srt ! i) - now \<and> time (srt ! i) - now \<le> 0)"
  "diff (cueRow srt now i) = time (srt ! i) - now"
  "prevTime (cueRow srt now i) = (if i = 0 then 0 else time (srt ! (i - 1)))"
  "windowDuration (cueRow srt now i) = time (srt ! i) - (if i = 0 then 0 else time (srt ! (i - 1)))"
  by (auto simp: cueRow_def Let_def split_beta)

lemma cueRow_progress:
  "progressPercent (cueRow srt now i) =
     (let ws = (if i = 0 then 0 else time (srt ! (i - 1))); t = time (srt ! i)
      in if ws \<le> now \<and> now \<le> t then (if t - ws > 0 then (now - ws) / (t - ws) * 100 else 100)
         else if now > t then 100 else 0)"
  by (simp add: cueRow_def Let_def split_beta)

lemma sample_sorted: "sortedCues sample_cues = [sample_cues ! 1, sample_cues ! 0]"
  by (simp add: sortedCues_def sample_cues_def)

lemma to_json_Undefined_iff: "to_json v = Undefined \<longleftrightarrow> v = Undefined"
  by (cases v) simp_all

lemma to_json_idem: "to_json (to_json v) = to_json v"
proof (induction v rule: to_json.induct)
  case (1 vs)
  then show ?case
    by (simp add: comp_def to_json_Undefined_iff cong: map_cong)
next
  case (2 kvs)
  have "filter (\<lambda>kv. snd kv \<noteq> Undefined)
          (map (\<lambda>kv. (fst kv, to_json (snd kv))) (filter (\<lambda>kv. snd kv \<noteq> Undefined) kvs))
        = map (\<lambda>kv. (fst kv, to_json (snd kv))) (filter (\<lambda>kv. snd kv \<noteq> Undefined) kvs)"
    by (simp add: filter_map comp_def to_json_Undefined_iff)
  with 2 show ?case
    by (simp add: comp_def cong: map_cong)
qed simp_all

lemma handleStop_fields:
  "audioBuffer (handleStop s) = audioBuffer s" "duration (handleStop s) = duration s"
  "fileName (handleStop s) = fileName s" "cues (handleStop s) = cues s"
  "\<not> isPlaying (handleStop s)" "currentTime (handleStop s) = 0"
  by (simp_all add: handleStop_def pauseAudio_def)

lemma importCue_cue_object:
  assumes "truthy (id_cue c)" and "truthy (label c)" and "truthy (color c)"
  shows "importCue coerce rng k (cue_object c) = Inr (c, k)"
  using assms by (simp add: importCue_def cue_object_def)

lemma importCues_cue_objects:
  assumes "\<forall>c \<in> set cs. truthy (id_cue c) \<and> truthy (label c) \<and> truthy (color c)"
  shows "importCues coerce rng k (map cue_object cs) = Inr cs"
  using assms by (induction cs) (simp_all add: importCue_cue_object)

lemma to_json_cue_object:
  assumes "id_cue c \<noteq> Undefined" and "label c \<noteq> Undefined" and "color c \<noteq> Undefined"
    and "json_value (id_cue c)" and "json_value (label c)" and "json_value (color c)"
  shows "to_json (cue_object c) = cue_object c"
  using assms by (simp add: cue_object_def json_value_def)

lemma truthy_not_Undefined: "truthy v \<Longrightarrow> v \<noteq> Undefined"
  by auto

lemma export_import_truthy_fields:
  assumes "\<forall>c \<in> set (cues s). truthy (id_cue c) \<and> truthy (label c) \<and> truthy (color c)
             \<and> json_value (id_cue c) \<and> json_value (label c) \<and> json_value (color c)"
  shows "exportThenImport coerce rng exportDate s = (s, [])"
proof -
  have c: "map (\<lambda>v. if v = Undefined then Null else to_json v) (map cue_object (cues s))
         = map cue_object (cues s)"
  proof (rule map_idI)
    fix v assume "v \<in> set (map cue_object (cues s))"
    then obtain c where c: "c \<in> set (cues s)" and v: "v = cue_object c" by auto
    from c assms have "to_json (cue_object c) = cue_object c"
      by (intro to_json_cue_object) (simp_all add: truthy_not_Undefined)
    then show "(if v = Undefined then Null else to_json v) = v"
      by (simp add: v cue_object_def)
  qed
  have p: "get_prop (to_json (to_json (Obj
             [(''projectName'', (case fileName s of None \<Rightarrow> Null | Some n \<Rightarrow> Str n)),
              (''duration'', Num (duration s)),
              (''cues'', Arr (map cue_object (cues s))),
              (''exportDate'', Str exportDate)]))) ''cues''
         = Inr (Arr (map cue_object (cues s)))"
    unfolding to_json_idem using c by (simp split: option.split)
  have i: "importCues coerce rng 0 (map cue_object (cues s)) = Inr (cues s)"
    using assms by (intro importCues_cue_objects) simp
  show ?thesis
    by (simp add: exportThenImport_def handleExport_def handleCueImport_def importTry_def
        JSON_stringify_def Let_def p i del: to_json.simps)
qed

lemma import_abc_example:
  assumes "coerce (Str ''abc'') = Inr None"
  shows "handleCueImport coerce rng s
           (Some \<lparr> jf_text = Some (JsonText (Obj [(''cues'', Arr [Obj [(''time'', Str ''abc'')]])])) \<rparr>)
         = (s \<lparr> cues := [\<lparr> id_cue = Str (rng 0), time = 0, label = Str ''Imported Cue'',
                            color = Str ''#ef4444'', row = 0 \<rparr>] \<rparr>, [])"
  using assms by (simp add: handleCueImport_def importTry_def importCue_def)

lemma importCue_defaults:
  assumes "c \<noteq> Null" and "c \<noteq> Undefined"
    and "get_prop c ''time'' = Inr tv" and "ToNumber coerce tv = Inr n"
  shows "\<exists>q. importCue coerce rng k c
              = Inr (q, if truthy (projr (get_prop c ''id'')) then k else Suc k)
           \<and> id_cue q = (if truthy (projr (get_prop c ''id'')) then projr (get_prop c ''id'')
                         else Str (rng k))
           \<and> time q = (case n of None \<Rightarrow> 0 | Some x \<Rightarrow> x)
           \<and> label q = (if truthy (projr (get_prop c ''label'')) then projr (get_prop c ''label'')
                        else Str ''Imported Cue'')
           \<and> color q = (if truthy (projr (get_prop c ''color'')) then projr (get_prop c ''color'')
                        else Str ''#ef4444'')
           \<and> row q = (case projr (get_prop c ''row'') of Num r \<Rightarrow> r | _ \<Rightarrow> 0)"
proof -
  have g: "\<exists>v. get_prop c key = Inr v" for key
    using assms(1,2) by (cases c) simp_all
  obtain idv lv cv rv where f: "get_prop c ''id'' = Inr idv" "get_prop c ''label'' = Inr lv"
    "get_prop c ''color'' = Inr cv" "get_prop c ''row'' = Inr rv"
    using g by meson
  show ?thesis
    using assms(3,4) f by (cases n) (simp_all add: importCue_def)
qed

lemma importCue_Null: "importCue coerce rng k Null = Inl TypeError"
  by (simp add: importCue_def)

lemma importCues_null_entry:
  assumes "Null \<in> set records"
  shows "\<exists>err. importCues coerce rng k records = Inl err"
  using assms
proof (induction records arbitrary: k)
  case Nil
  then show ?case by simp
next
  case (Cons c cs)
  show ?case
  proof (cases "importCue coerce rng k c")
    case (Inl err)
    then show ?thesis by simp
  next
    case (Inr r)
    then have "c \<noteq> Null"
      by (auto simp: importCue_Null)
    with Cons.prems have "Null \<in> set cs" by simp
    from Cons.IH [OF this, of "snd r"] Inr show ?thesis
      by (cases r) auto
  qed
qed

lemma import_null_entry_rejected:
  assumes "jf_text file = Some txt" and "JSON_parse txt = Inr data"
    and "cues_array data = Some records" and "Null \<in> set records"
  shows "handleCueImport coerce rng s (Some file) = (s, [Failed_to_parse_JSON_file])"
proof -
  from assms(3) have g: "get_prop data ''cues'' = Inr (Arr records)"
    by (auto simp: cues_array_def split: sum.splits jsval.splits)
  from importCues_null_entry [OF assms(4)] obtain err
    where "importCues coerce rng 0 records = Inl err" by blast
  then show ?thesis
    using assms(1,2) g by (simp add: handleCueImport_def importTry_def)
qed

lemma importCues_no_null_entry:
  assumes "\<forall>c \<in> set records. c \<noteq> Null \<and> c \<noteq> Undefined"
    and "\<forall>v. \<exists>n. coerce v = Inr n"
  shows "\<exists>qs. importCues coerce rng k records = Inr qs \<and> length qs = length records"
  using assms(1)
proof (induction records arbitrary: k)
  case Nil
  then show ?case by simp
next
  case (Cons c cs)
  then have c: "c \<noteq> Null" "c \<noteq> Undefined" by simp_all
  then obtain tv where tv: "get_prop c ''time'' = Inr tv"
    by (cases c) simp_all
  from assms(2) obtain n where n: "ToNumber coerce tv = Inr n"
    by (cases tv) (simp_all, metis+)
  from importCue_defaults [OF c tv n, of rng k] obtain q k1
    where q: "importCue coerce rng k c = Inr (q, k1)" by blast
  from Cons.IH [of k1] Cons.prems obtain qs
    where "importCues coerce rng k1 cs = Inr qs" "length qs = length cs" by auto
  with q show ?case by simp
qed

section \<open>The Time-Space Mapper\<close>

text \<open>
  C1. With the viewport mounted, its width read the same way by both functions and
  a zoom within the slider's bounds, the time under the pixel at which
  \<open>getCueScreenX\<close> places the time \<open>t\<close> is \<open>t\<close> again: the pair is exactly inverse
  (over the reals, which is what "to floating precision" idealises).
\<close>

theorem mapper_inverse:
  assumes "zoom_in_bounds tm"
    and "rect_width el = clientWidth el"
    and "clientX e - rect_left el = getCueScreenX tm (Some el) t"
  shows "clickTime tm el e = t"
proof -
  have z: "zoom tm \<noteq> 0"
    using assms(1) by (simp add: zoom_in_bounds_def MIN_ZOOM_def)
  have "clickTime tm el e
      = ((t - (viewCenterTime tm - clientWidth el / 2 / zoom tm)) * zoom tm) / zoom tm
        + (viewCenterTime tm - clientWidth el / 2 / zoom tm)"
    using assms(2,3) by (simp add: clickTime_def getCueScreenX_def Let_def)
  also have "\<dots> = t"
    using z by simp
  finally show ?thesis .
qed

theorem mapper_inverse_witness:
  "zoom_in_bounds sample_timeline
   \<and> rect_width sample_container = clientWidth sample_container
   \<and> clientX \<lparr> clientX = 220, clientY = 0 \<rparr> - rect_left sample_container
       = getCueScreenX sample_timeline (Some sample_container) 3
   \<and> clickTime sample_timeline sample_container \<lparr> clientX = 220, clientY = 0 \<rparr> = 3"
proof -
  have a: "zoom_in_bounds sample_timeline"
    by (simp add: zoom_in_bounds_def sample_timeline_def MIN_ZOOM_def MAX_ZOOM_def)
  have b: "rect_width sample_container = clientWidth sample_container"
    by (simp add: sample_container_def)
  have c: "clientX \<lparr> clientX = 220, clientY = 0 \<rparr> - rect_left sample_container
       = getCueScreenX sample_timeline (Some sample_container) 3"
    by (simp add: getCueScreenX_def sample_timeline_def sample_container_def)
  from mapper_inverse [OF a b c] a b c show ?thesis by simp
qed

section \<open>The cue list projector\<close>

text \<open>
  C2. The rows are computed over the cues sorted ascending by time (a permutation
  of the cue set), one row per cue. For the cue at sorted index \<open>i\<close>, with
  \<open>delta = cue.time - currentTime\<close>: \<open>isPast\<close> holds iff \<open>delta < -0.5\<close>; \<open>isNow\<close> holds
  iff \<open>-0.5 \<le> delta \<le> 0\<close>; the window starts at 0 for \<open>i = 0\<close> and at the time of the
  previous sorted cue otherwise, and its duration is the cue's time minus that
  start; when the current time lies in the window the progress is
  \<open>(currentTime - windowStart) / windowDuration * 100\<close> for a positive duration and
  100 for a zero one; when the current time is past the cue it is 100; otherwise it
  is 0. The next cue is absent iff no cue has a time greater than the current
  time, and otherwise it is the first sorted cue with such a time.
\<close>

theorem cue_list_projection:
  "sorted (map time (sortedCues cs)) \<and> mset (sortedCues cs) = mset cs
   \<and> length (cueListRows cs now) = length cs
   \<and> (\<forall>i < length cs.
         (isPast (cueListRows cs now ! i) \<longleftrightarrow> time (sortedCues cs ! i) - now < - (1 / 2))
       \<and> (isNow (cueListRows cs now ! i) \<longleftrightarrow>
            - (1 / 2) \<le> time (sortedCues cs ! i) - now \<and> time (sortedCues cs ! i) - now \<le> 0)
       \<and> prevTime (cueListRows cs now ! i) =
            (if i = 0 then 0 else time (sortedCues cs ! (i - 1)))
       \<and> windowDuration (cueListRows cs now ! i) =
            time (sortedCues cs ! i) - prevTime (cueListRows cs now ! i)
       \<and> (prevTime (cueListRows cs now ! i) \<le> now \<and> now \<le> time (sortedCues cs ! i) \<longrightarrow>
            (0 < windowDuration (cueListRows cs now ! i) \<longrightarrow>
               progressPercent (cueListRows cs now ! i) =
                 (now - prevTime (cueListRows cs now ! i))
                   / windowDuration (cueListRows cs now ! i) * 100)
          \<and> (windowDuration (cueListRows cs now ! i) = 0 \<longrightarrow>
               progressPercent (cueListRows cs now ! i) = 100))
       \<and> (time (sortedCues cs ! i) < now \<longrightarrow> progressPercent (cueListRows cs now ! i) = 100)
       \<and> (\<not> (prevTime (cueListRows cs now ! i) \<le> now \<and> now \<le> time (sortedCues cs ! i))
            \<and> \<not> time (sortedCues cs ! i) < now \<longrightarrow>
            progressPercent (cueListRows cs now ! i) = 0))
   \<and> (nextCue cs now = None \<longleftrightarrow> (\<forall>c \<in> set cs. time c \<le> now))
   \<and> (\<forall>c. nextCue cs now = Some c \<longrightarrow>
         (\<exists>i < length cs. sortedCues cs ! i = c \<and> now < time c
            \<and> (\<forall>j < i. time (sortedCues cs ! j) \<le> now)))"
proof -
  have rows: "\<forall>i < length cs.
         (isPast (cueListRows cs now ! i) \<longleftrightarrow> time (sortedCues cs ! i) - now < - (1 / 2))
       \<and> (isNow (cueListRows cs now ! i) \<longleftrightarrow>
            - (1 / 2) \<le> time (sortedCues cs ! i) - now \<and> time (sortedCues cs ! i) - now \<le> 0)
       \<and> prevTime (cueListRows cs now ! i) =
            (if i = 0 then 0 else time (sortedCues cs ! (i - 1)))
       \<and> windowDuration (cueListRows cs now ! i) =
            time (sortedCues cs ! i) - prevTime (cueListRows cs now ! i)
       \<and> (prevTime (cueListRows cs now ! i) \<le> now \<and> now \<le> time (sortedCues cs ! i) \<longrightarrow>
            (0 < windowDuration (cueListRows cs now ! i) \<longrightarrow>
               progressPercent (cueListRows cs now ! i) =
                 (now - prevTime (cueListRows cs now ! i))
                   / windowDuration (cueListRows cs now ! i) * 100)
          \<and> (windowDuration (cueListRows cs now ! i) = 0 \<longrightarrow>
               progressPercent (cueListRows cs now ! i) = 100))
       \<and> (time (sortedCues cs ! i) < now \<longrightarrow> progressPercent (cueListRows cs now ! i) = 100)
       \<and> (\<not> (prevTime (cueListRows cs now ! i) \<le> now \<and> now \<le> time (sortedCues cs ! i))
            \<and> \<not> time (sortedCues cs ! i) < now \<longrightarrow>
            progressPercent (cueListRows cs now ! i) = 0)"
  proof (intro allI impI)
    fix i assume i: "i < length cs"
    note n = cueListRows_nth [OF i, of now]
    show "(isPast (cueListRows cs now ! i) \<longleftrightarrow> time (sortedCues cs ! i) - now < - (1 / 2))
       \<and> (isNow (cueListRows cs now ! i) \<longleftrightarrow>
            - (1 / 2) \<le> time (sortedCues cs ! i) - now \<and> time (sortedCues cs ! i) - now \<le> 0)
       \<and> prevTime (cueListRows cs now ! i) =
            (if i = 0 then 0 else time (sortedCues cs ! (i - 1)))
       \<and> windowDuration (cueListRows cs now ! i) =
            time (sortedCues cs ! i) - prevTime (cueListRows cs now ! i)
       \<and> (prevTime (cueListRows cs now ! i) \<le> now \<and> now \<le> time (sortedCues cs ! i) \<longrightarrow>
            (0 < windowDuration (cueListRows cs now ! i) \<longrightarrow>
               progressPercent (cueListRows cs now ! i) =
                 (now - prevTime (cueListRows cs now ! i))
                   / windowDuration (cueListRows cs now ! i) * 100)
          \<and> (windowDuration (cueListRows cs now ! i) = 0 \<longrightarrow>
               progressPercent (cueListRows cs now ! i) = 100))
       \<and> (time (sortedCues cs ! i) < now \<longrightarrow> progressPercent (cueListRows cs now ! i) = 100)
       \<and> (\<not> (prevTime (cueListRows cs now ! i) \<le> now \<and> now \<le> time (sortedCues cs ! i))
            \<and> \<not> time (sortedCues cs ! i) < now \<longrightarrow>
            progressPercent (cueListRows cs now ! i) = 0)"
      unfolding n cueRow_status cueRow_progress Let_def by auto
  qed
  have len: "length (cueListRows cs now) = length cs"
    by (simp add: cueListRows_def sortedCues_length)
  from sortedCues_sorted sortedCues_mset len rows nextCue_None nextCue_Some
  show ?thesis by blast
qed

theorem cue_list_projection_witness:
  "(1::nat) < length sample_cues
   \<and> isPast (cueListRows sample_cues 2 ! 0)
   \<and> prevTime (cueListRows sample_cues 2 ! 1) = 1
   \<and> \<not> isPast (cueListRows sample_cues 2 ! 1)
   \<and> nextCue sample_cues 4 = None"
proof -
  have l: "(0::nat) < length sample_cues" "(1::nat) < length sample_cues"
    by (simp_all add: sample_cues_def)
  have t: "time (sortedCues sample_cues ! 0) = 1" "time (sortedCues sample_cues ! 1) = 4"
    by (simp_all add: sample_sorted) (simp_all add: sample_cues_def)
  note w = cue_list_projection [of sample_cues 2]
  from w l(1) have "isPast (cueListRows sample_cues 2 ! 0)
      \<longleftrightarrow> time (sortedCues sample_cues ! 0) - 2 < - (1 / 2)"
    by blast
  then have 1: "isPast (cueListRows sample_cues 2 ! 0)"
    using t by simp
  from w l(2) have "prevTime (cueListRows sample_cues 2 ! 1) =
      (if (1::nat) = 0 then 0 else time (sortedCues sample_cues ! (1 - 1)))"
    by blast
  then have 2: "prevTime (cueListRows sample_cues 2 ! 1) = 1"
    using t by simp
  from w l(2) have "isPast (cueListRows sample_cues 2 ! 1)
      \<longleftrightarrow> time (sortedCues sample_cues ! 1) - 2 < - (1 / 2)"
    by blast
  then have 3: "\<not> isPast (cueListRows sample_cues 2 ! 1)"
    using t by simp
  from cue_list_projection [of sample_cues 4]
  have "nextCue sample_cues 4 = None \<longleftrightarrow> (\<forall>c \<in> set sample_cues. time c \<le> 4)"
    by blast
  then have 4: "nextCue sample_cues 4 = None"
    by (simp add: sample_cues_def)
  from l(2) 1 2 3 4 show ?thesis by blast
qed

section \<open>Pointer gestures on the timeline\<close>

text \<open>
  C3. While a cue is being dragged (its id a primitive value), with the viewport
  mounted, a zoom within the slider's bounds and a viewport of positive height, a
  pointer move makes exactly one
  call of \<open>onUpdateCue\<close> for the dragged cue, carrying a time and a row and nothing
  else. The time is the pointer X converted as \<open>clickTime\<close> does and clamped by
  \<open>max 0 (min duration _)\<close>, then, under snap-to-grid, \<open>Math.round (_ * 10) / 10\<close>:
  a whole number of tenths, within 0.05 of the clamped time. The row is
  \<open>floor (pointerY / (height / NUM_ROWS))\<close> clamped to \<open>[0, NUM_ROWS - 1]\<close>, an integer
  between 0 and 3 for every pointer Y. The store holds both on that very move: every
  cue with the dragged id has the new time and row.
\<close>

theorem drag_move_update:
  assumes "truthy (draggingCueId tm)" and "zoom_in_bounds tm" and "0 < rect_height el"
    and "primitive (draggingCueId tm)"
  shows "handleGlobalMouseMove (duration s) (Some el) tm e =
           (tm, [OnUpdateCue (draggingCueId tm)
                   \<lparr> upd_id = None, upd_time = Some (dragTime tm (duration s) el e),
                     upd_label = None, upd_color = None, upd_row = Some (dragRow el e) \<rparr>])
       \<and> dragTime tm (duration s) el e =
           (let clamped = max 0 (min (duration s)
                  ((clientX e - rect_left el) / zoom tm
                     + (viewCenterTime tm - (rect_width el / 2) / zoom tm)))
            in if snapToGrid tm then of_int \<lfloor>clamped * 10 + 1 / 2\<rfloor> / 10 else clamped)
       \<and> (snapToGrid tm \<longrightarrow>
            (\<exists>k::int. dragTime tm (duration s) el e = of_int k / 10)
            \<and> \<bar>dragTime tm (duration s) el e - clampTime (duration s) (clickTime tm el e)\<bar> \<le> 1 / 20)
       \<and> (0 \<le> duration s \<longrightarrow>
            0 \<le> clampTime (duration s) (clickTime tm el e)
            \<and> clampTime (duration s) (clickTime tm el e) \<le> duration s)
       \<and> dragRow el e =
            max 0 (min (NUM_ROWS - 1)
              (of_int \<lfloor>(clientY e - rect_top el) / (rect_height el / NUM_ROWS)\<rfloor>))
       \<and> (\<exists>k::int. dragRow el e = of_int k \<and> 0 \<le> k \<and> k \<le> 3)
       \<and> cues (fst (editorMouseMove now (Some el) (s, tm) e)) =
            map (\<lambda>c. if id_cue c = draggingCueId tm
                      then c \<lparr> time := dragTime tm (duration s) el e, row := dragRow el e \<rparr>
                      else c) (cues s)"
proof -
  have 1: "handleGlobalMouseMove (duration s) (Some el) tm e =
           (tm, [OnUpdateCue (draggingCueId tm)
                   \<lparr> upd_id = None, upd_time = Some (dragTime tm (duration s) el e),
                     upd_label = None, upd_color = None, upd_row = Some (dragRow el e) \<rparr>])"
    using assms(1) by (simp add: handleGlobalMouseMove_def)
  have 2: "dragTime tm (duration s) el e =
           (let clamped = max 0 (min (duration s)
                  ((clientX e - rect_left el) / zoom tm
                     + (viewCenterTime tm - (rect_width el / 2) / zoom tm)))
            in if snapToGrid tm then of_int \<lfloor>clamped * 10 + 1 / 2\<rfloor> / 10 else clamped)"
    by (simp add: dragTime_def clampTime_def clickTime_def Math_round_def Let_def)
  have 3: "snapToGrid tm \<longrightarrow>
            (\<exists>k::int. dragTime tm (duration s) el e = of_int k / 10)
            \<and> \<bar>dragTime tm (duration s) el e - clampTime (duration s) (clickTime tm el e)\<bar> \<le> 1 / 20"
    using snap_is_tenth [of "clampTime (duration s) (clickTime tm el e)"]
      snap_near [of "clampTime (duration s) (clickTime tm el e)"]
    by (simp add: dragTime_def Let_def)
  have 4: "0 \<le> duration s \<longrightarrow>
            0 \<le> clampTime (duration s) (clickTime tm el e)
            \<and> clampTime (duration s) (clickTime tm el e) \<le> duration s"
    using clampTime_range by blast
  have 5: "dragRow el e =
            max 0 (min (NUM_ROWS - 1)
              (of_int \<lfloor>(clientY e - rect_top el) / (rect_height el / NUM_ROWS)\<rfloor>))"
    by (simp add: dragRow_def Let_def)
  have 6: "\<exists>k::int. dragRow el e = of_int k \<and> 0 \<le> k \<and> k \<le> 3"
    by (rule dragRow_int)
  have 7: "cues (fst (editorMouseMove now (Some el) (s, tm) e)) =
            map (\<lambda>c. if id_cue c = draggingCueId tm
                      then c \<lparr> time := dragTime tm (duration s) el e, row := dragRow el e \<rparr>
                      else c) (cues s)"
    by (simp add: editorMouseMove_def 1 handleUpdateCue_def strict_eq_def spread_def)
  from 1 2 3 4 5 6 7 show ?thesis by blast
qed

theorem drag_move_update_witness:
  "truthy (draggingCueId dragging_timeline) \<and> zoom_in_bounds dragging_timeline
   \<and> 0 < rect_height sample_container \<and> primitive (draggingCueId dragging_timeline)
   \<and> cues (fst (editorMouseMove 0 (Some sample_container) (sample_app, dragging_timeline)
         \<lparr> clientX = 247, clientY = 170 \<rparr>)) =
       [ \<lparr> id_cue = Str ''a'', time = 33 / 10, label = Str ''Cue 1'', color = Str ''#ef4444'', row = 2 \<rparr>,
         \<lparr> id_cue = Str ''b'', time = 1, label = Str ''Cue 2'', color = Str ''#22c55e'', row = 2 \<rparr> ]"
proof -
  have a: "truthy (draggingCueId dragging_timeline)"
    by (simp add: dragging_timeline_simps)
  have b: "zoom_in_bounds dragging_timeline"
    by (simp add: zoom_in_bounds_def dragging_timeline_simps MIN_ZOOM_def MAX_ZOOM_def)
  have c: "0 < rect_height sample_container"
    by (simp add: sample_container_def)
  have p: "primitive (draggingCueId dragging_timeline)"
    by (simp add: dragging_timeline_simps)
  have t: "dragTime dragging_timeline (duration sample_app) sample_container
             \<lparr> clientX = 247, clientY = 170 \<rparr> = 33 / 10"
    by (simp add: dragTime_def clampTime_def clickTime_def Math_round_def Let_def
        dragging_timeline_simps sample_container_def sample_app_def)
  have r: "dragRow sample_container \<lparr> clientX = 247, clientY = 170 \<rparr> = 2"
    by (simp add: dragRow_def Let_def sample_container_def NUM_ROWS_def)
  have "cues (fst (editorMouseMove 0 (Some sample_container) (sample_app, dragging_timeline)
         \<lparr> clientX = 247, clientY = 170 \<rparr>)) =
       map (\<lambda>c. if id_cue c = draggingCueId dragging_timeline
                 then c \<lparr> time := 33 / 10, row := 2 \<rparr> else c) (cues sample_app)"
    using drag_move_update [OF a b c p, of sample_app "\<lparr> clientX = 247, clientY = 170 \<rparr>" 0]
    by (simp only: t r)
  then show ?thesis
    using a b c p by (simp add: dragging_timeline_simps sample_app_def sample_cues_def)
qed

text \<open>
  C4. A pan gesture on the mounted viewport is a pointer-down on the background,
  any pointer moves, and the pointer-up. The displacement the handler measures is the horizontal distance
  between the pointer-up and the pointer-down, \<open>|clientX up - clientX down|\<close>. Below
  5 pixels the gesture issues exactly one seek, to the time under the pointer-up
  position (with the view centre as the moves of the gesture left it) clamped to
  \<open>[0, duration]\<close>; at 5 pixels or more it issues none. The gesture ends with
  \<open>isPanning\<close> off.
\<close>

theorem click_to_seek:
  assumes "0 \<le> dur" and "zoom_in_bounds tm"
  shows "seeks (snd (panGesture dur (Some el) tm down es up)) =
           (if \<bar>clientX up - clientX down\<bar> < 5
            then [max 0 (min dur
                    ((clientX up - rect_left el) / zoom tm
                       + (viewCenterTime (fst (pointerMoves dur (Some el) (handleMouseDown tm down) es))
                            - (rect_width el / 2) / zoom tm)))]
            else [])
       \<and> (\<forall>t \<in> set (seeks (snd (panGesture dur (Some el) tm down es up))). 0 \<le> t \<and> t \<le> dur)
       \<and> \<not> isPanning (fst (panGesture dur (Some el) tm down es up))"
proof -
  define tm0 where "tm0 = handleMouseDown tm down"
  define tm1 where "tm1 = fst (pointerMoves dur (Some el) tm0 es)"
  define cs1 where "cs1 = snd (pointerMoves dur (Some el) tm0 es)"
  have k: "isPanning tm1" "dragStartX tm1 = clientX down" "zoom tm1 = zoom tm" "seeks cs1 = []"
    using pointerMoves_keep [of dur "Some el" tm0 es]
    by (simp_all add: tm1_def cs1_def tm0_def handleMouseDown_def)
  have g: "panGesture dur (Some el) tm down es up =
      (fst (handleGlobalMouseUp dur (Some el) tm1 up), cs1 @ snd (handleGlobalMouseUp dur (Some el) tm1 up))"
    by (simp add: panGesture_def Let_def split_beta tm0_def tm1_def cs1_def)
  have u: "snd (handleGlobalMouseUp dur (Some el) tm1 up) =
      (if \<bar>clientX up - clientX down\<bar> < 5 then [OnSeek (clampTime dur (clickTime tm1 el up))] else [])"
    using k by (simp add: handleGlobalMouseUp_def Let_def)
  have p: "\<not> isPanning (fst (handleGlobalMouseUp dur (Some el) tm1 up))"
    using k by (simp add: handleGlobalMouseUp_def Let_def)
  have c: "clampTime dur (clickTime tm1 el up) =
      max 0 (min dur ((clientX up - rect_left el) / zoom tm
                       + (viewCenterTime tm1 - (rect_width el / 2) / zoom tm)))"
    using k by (simp add: clampTime_def clickTime_def Let_def)
  have s: "seeks (snd (panGesture dur (Some el) tm down es up)) =
           (if \<bar>clientX up - clientX down\<bar> < 5
            then [max 0 (min dur
                    ((clientX up - rect_left el) / zoom tm
                       + (viewCenterTime tm1 - (rect_width el / 2) / zoom tm)))]
            else [])"
    using k(4) by (simp add: g u seeks_append c)
  have r: "\<forall>t \<in> set (seeks (snd (panGesture dur (Some el) tm down es up))). 0 \<le> t \<and> t \<le> dur"
    using assms(1) by (simp add: s)
  from s r p show ?thesis
    by (simp add: g tm1_def tm0_def)
qed

theorem click_to_seek_witness:
  "(0::real) \<le> 10 \<and> zoom_in_bounds sample_timeline
   \<and> seeks (snd (panGesture 10 (Some sample_container) sample_timeline
         \<lparr> clientX = 320, clientY = 50 \<rparr> [\<lparr> clientX = 322, clientY = 50 \<rparr>]
         \<lparr> clientX = 323, clientY = 60 \<rparr>)) = [401 / 100]
   \<and> seeks (snd (panGesture 10 (Some sample_container) sample_timeline
         \<lparr> clientX = 320, clientY = 50 \<rparr> [\<lparr> clientX = 322, clientY = 50 \<rparr>]
         \<lparr> clientX = 325, clientY = 60 \<rparr>)) = []"
proof -
  have a: "(0::real) \<le> 10" by simp
  have b: "zoom_in_bounds sample_timeline"
    by (simp add: zoom_in_bounds_def sample_timeline_def MIN_ZOOM_def MAX_ZOOM_def)
  have m: "viewCenterTime (fst (pointerMoves 10 (Some sample_container)
             (handleMouseDown sample_timeline \<lparr> clientX = 320, clientY = 50 \<rparr>)
             [\<lparr> clientX = 322, clientY = 50 \<rparr>])) = 249 / 50"
    by (simp add: handleGlobalMouseMove_def handleMouseDown_def sample_timeline_def Let_def)
  have z: "zoom sample_timeline = 100" "rect_left sample_container = 20"
    "rect_width sample_container = 800"
    by (simp_all add: sample_timeline_def sample_container_def)
  have 1: "seeks (snd (panGesture 10 (Some sample_container) sample_timeline
         \<lparr> clientX = 320, clientY = 50 \<rparr> [\<lparr> clientX = 322, clientY = 50 \<rparr>]
         \<lparr> clientX = 323, clientY = 60 \<rparr>)) = [401 / 100]"
    by (subst conjunct1 [OF click_to_seek [OF a b]]) (simp add: m z del: pointerMoves.simps)
  have 2: "seeks (snd (panGesture 10 (Some sample_container) sample_timeline
         \<lparr> clientX = 320, clientY = 50 \<rparr> [\<lparr> clientX = 322, clientY = 50 \<rparr>]
         \<lparr> clientX = 325, clientY = 60 \<rparr>)) = []"
    by (subst conjunct1 [OF click_to_seek [OF a b]]) simp
  from a b 1 2 show ?thesis by blast
qed

text \<open>
  C5. A pointer-down on the background switches \<open>isFollowing\<close> off. With no cue
  being dragged, every pointer move that follows it, after any run of earlier moves
  of the same gesture, sets \<open>viewCenterTime\<close> to
  \<open>max 0 (min duration (startCenterTime - (currentX - startX) / zoom))\<close>, where
  \<open>startCenterTime\<close> and \<open>startX\<close> are the view centre and the pointer X at the
  pointer-down. So for a duration that is not negative the view centre is within
  \<open>[0, duration]\<close> after any non-empty run of pan moves, and after any run at all
  when it was within the interval before.
\<close>

theorem pan_center_clamped:
  assumes "0 \<le> dur" and "zoom_in_bounds tm" and "\<not> truthy (draggingCueId tm)"
  shows "\<not> isFollowing (handleMouseDown tm down)
       \<and> viewCenterTime (fst (handleGlobalMouseMove dur cont
             (fst (pointerMoves dur cont (handleMouseDown tm down) es)) e)) =
           max 0 (min dur (viewCenterTime tm - (clientX e - clientX down) / zoom tm))
       \<and> (es \<noteq> [] \<longrightarrow>
            0 \<le> viewCenterTime (fst (pointerMoves dur cont (handleMouseDown tm down) es))
            \<and> viewCenterTime (fst (pointerMoves dur cont (handleMouseDown tm down) es)) \<le> dur)
       \<and> (0 \<le> viewCenterTime tm \<and> viewCenterTime tm \<le> dur \<longrightarrow>
            0 \<le> viewCenterTime (fst (pointerMoves dur cont (handleMouseDown tm down) es))
            \<and> viewCenterTime (fst (pointerMoves dur cont (handleMouseDown tm down) es)) \<le> dur)"
proof -
  define tm0 where "tm0 = handleMouseDown tm down"
  define tmk where "tmk = fst (pointerMoves dur cont tm0 es)"
  have d: "\<not> isFollowing tm0" "isPanning tm0" "\<not> truthy (draggingCueId tm0)"
    "dragStartX tm0 = clientX down" "dragStartTime tm0 = viewCenterTime tm"
    "zoom tm0 = zoom tm" "viewCenterTime tm0 = viewCenterTime tm"
    using assms(3) by (simp_all add: tm0_def handleMouseDown_def)
  have k: "isPanning tmk" "\<not> truthy (draggingCueId tmk)" "dragStartX tmk = clientX down"
    "dragStartTime tmk = viewCenterTime tm" "zoom tmk = zoom tm"
    using pointerMoves_keep [of dur cont tm0 es] d by (simp_all add: tmk_def)
  have 2: "viewCenterTime (fst (handleGlobalMouseMove dur cont tmk e)) =
           max 0 (min dur (viewCenterTime tm - (clientX e - clientX down) / zoom tm))"
    by (simp add: pan_move_center [OF k(2,1)] k)
  have 3: "es \<noteq> [] \<longrightarrow> 0 \<le> viewCenterTime tmk \<and> viewCenterTime tmk \<le> dur"
    using pointerMoves_pan_nonempty_range [OF assms(1) d(3) d(2), of es cont]
    by (simp add: tmk_def)
  have 4: "0 \<le> viewCenterTime tm \<and> viewCenterTime tm \<le> dur \<longrightarrow>
           0 \<le> viewCenterTime tmk \<and> viewCenterTime tmk \<le> dur"
    using pointerMoves_center_range [OF assms(1), of tm0 cont es] d(7)
    by (simp add: tmk_def)
  from d(1) 2 3 4 show ?thesis
    by (simp add: tmk_def tm0_def)
qed

theorem pan_center_clamped_witness:
  "(0::real) \<le> 10 \<and> zoom_in_bounds sample_timeline \<and> \<not> truthy (draggingCueId sample_timeline)
   \<and> \<not> isFollowing (handleMouseDown sample_timeline \<lparr> clientX = 320, clientY = 50 \<rparr>)
   \<and> viewCenterTime (fst (handleGlobalMouseMove 10 (Some sample_container)
         (fst (pointerMoves 10 (Some sample_container)
                (handleMouseDown sample_timeline \<lparr> clientX = 320, clientY = 50 \<rparr>)
                [\<lparr> clientX = 1000, clientY = 50 \<rparr>]))
         \<lparr> clientX = 120, clientY = 50 \<rparr>)) = 7"
proof -
  have a: "(0::real) \<le> 10" by simp
  have b: "zoom_in_bounds sample_timeline"
    by (simp add: zoom_in_bounds_def sample_timeline_def MIN_ZOOM_def MAX_ZOOM_def)
  have c: "\<not> truthy (draggingCueId sample_timeline)"
    by (simp add: sample_timeline_def)
  note w = pan_center_clamped [OF a b c, of "\<lparr> clientX = 320, clientY = 50 \<rparr>"
      "Some sample_container" "[\<lparr> clientX = 1000, clientY = 50 \<rparr>]"
      "\<lparr> clientX = 120, clientY = 50 \<rparr>"]
  have 1: "\<not> isFollowing (handleMouseDown sample_timeline \<lparr> clientX = 320, clientY = 50 \<rparr>)"
    using w by (rule conjunct1)
  have 2: "viewCenterTime (fst (handleGlobalMouseMove 10 (Some sample_container)
         (fst (pointerMoves 10 (Some sample_container)
                (handleMouseDown sample_timeline \<lparr> clientX = 320, clientY = 50 \<rparr>)
                [\<lparr> clientX = 1000, clientY = 50 \<rparr>]))
         \<lparr> clientX = 120, clientY = 50 \<rparr>)) = 7"
    by (subst conjunct1 [OF conjunct2 [OF w]]) (simp add: sample_timeline_def)
  from a b c 1 2 show ?thesis by blast
qed




section \<open>Import and export of the cue set\<close>

text \<open>
  C6. Export followed by import of the exported document, for a store that the
  editor can hold: after the label of a cue has been cleared in the cue editor (the
  label is the empty string), the import gives that cue the label
  \<open>"Imported Cue"\<close>, because \<open>c.label || "Imported Cue"\<close> takes the empty string for
  an absent label. The labels after the round trip are not the labels before it.
  (For a store whose ids, labels and colors are all truthy the round trip gives the
  store back: \<open>export_import_truthy_fields\<close>.)
\<close>

theorem export_import_cleared_label:
  "map label (cues cleared_label_app) = [Str [], Str ''Cue 2'']
   \<and> map label (cues (fst (exportThenImport coerce rng exportDate cleared_label_app)))
       = [Str ''Imported Cue'', Str ''Cue 2'']"
  by (simp add: cleared_label_app_def handleUpdateCue_def strict_eq_def spread_def
      sample_app_def sample_cues_def exportThenImport_def handleExport_def handleCueImport_def
      importTry_def JSON_stringify_def importCue_def cue_object_def Let_def)

text \<open>
  C7. The import of the document \<open>{"cues": [{"time": 3, "label": "Intro"}, null]}\<close>:
  reading \<open>c.id\<close> of the \<open>null\<close> entry throws inside \<open>map\<close>, the \<open>catch\<close> of the
  handler shows the parse-failure alert, and the store is not replaced. One
  malformed record rejects the whole import, as any \<open>null\<close> entry does
  (\<open>import_null_entry_rejected\<close>). A record that is not \<open>null\<close> is normalised with
  the defaults (\<open>importCue_defaults\<close>, \<open>import_abc_example\<close>), and a document without
  a \<open>null\<close> entry is imported whole when the engine's conversions do not throw
  (\<open>importCues_no_null_entry\<close>).
\<close>

theorem import_null_record:
  "handleCueImport coerce rng s (Some null_record_file) = (s, [Failed_to_parse_JSON_file])"
  by (simp add: null_record_file_def handleCueImport_def importTry_def importCue_def)

text \<open>
  C8. When the text of the chosen file does not parse as JSON, or parses to a
  document without a \<open>cues\<close> array, the import leaves the whole \<open>App\<close> state as it
  was and shows exactly one alert: the parse-failure alert when the text does not
  parse (or the document is \<open>null\<close>), the missing-array alert otherwise.
\<close>

theorem import_rejected:
  assumes "jf_text file = Some txt"
    and "JSON_parse txt = Inl err \<or> (JSON_parse txt = Inr data \<and> cues_array data = None)"
  shows "fst (handleCueImport coerce rng s (Some file)) = s
       \<and> snd (handleCueImport coerce rng s (Some file)) =
           [if JSON_parse txt = Inl err \<or> data = Null \<or> data = Undefined
            then Failed_to_parse_JSON_file
            else Invalid_JSON_format_missing_cues_array]"
  using assms(2)
proof
  assume "JSON_parse txt = Inl err"
  then show ?thesis
    using assms(1) by (simp add: handleCueImport_def importTry_def)
next
  assume a: "JSON_parse txt = Inr data \<and> cues_array data = None"
  then have n: "JSON_parse txt \<noteq> Inl err" by simp
  show ?thesis
  proof (cases "data = Null \<or> data = Undefined")
    case True
    then have "get_prop data ''cues'' = Inl TypeError" by auto
    then show ?thesis
      using assms(1) a True by (simp add: handleCueImport_def importTry_def)
  next
    case False
    then obtain cv where g: "get_prop data ''cues'' = Inr cv"
      by (cases data) simp_all
    with a have "\<forall>records. cv \<noteq> Arr records"
      by (auto simp: cues_array_def)
    then have "importTry coerce rng s txt = Inr (s, [Invalid_JSON_format_missing_cues_array])"
      using a g by (cases cv) (simp_all add: importTry_def)
    then show ?thesis
      using assms(1) a False by (simp add: handleCueImport_def)
  qed
qed

theorem import_rejected_witness:
  "jf_text malformed_file = Some Malformed
   \<and> JSON_parse Malformed = Inl SyntaxError
   \<and> handleCueImport sample_coerce sample_rng sample_app (Some malformed_file)
       = (sample_app, [Failed_to_parse_JSON_file])
   \<and> jf_text no_cues_file = Some (JsonText (Obj [(''projectName'', Str ''song.mp3'')]))
   \<and> JSON_parse (JsonText (Obj [(''projectName'', Str ''song.mp3'')]))
       = Inr (Obj [(''projectName'', Str ''song.mp3'')])
   \<and> cues_array (Obj [(''projectName'', Str ''song.mp3'')]) = None
   \<and> handleCueImport sample_coerce sample_rng sample_app (Some no_cues_file)
       = (sample_app, [Invalid_JSON_format_missing_cues_array])"
proof -
  have a: "jf_text malformed_file = Some Malformed"
    by (simp add: malformed_file_def)
  have b: "JSON_parse Malformed = Inl SyntaxError"
    by simp
  have c: "jf_text no_cues_file = Some (JsonText (Obj [(''projectName'', Str ''song.mp3'')]))"
    by (simp add: no_cues_file_def)
  have d: "JSON_parse (JsonText (Obj [(''projectName'', Str ''song.mp3'')]))
       = Inr (Obj [(''projectName'', Str ''song.mp3'')])"
    by simp
  have e: "cues_array (Obj [(''projectName'', Str ''song.mp3'')]) = None"
    by (simp add: cues_array_def)
  from import_rejected [where coerce = sample_coerce and rng = sample_rng and s = sample_app,
      OF a disjI1 [OF b]]
  have 1: "handleCueImport sample_coerce sample_rng sample_app (Some malformed_file)
       = (sample_app, [Failed_to_parse_JSON_file])"
    by (simp add: prod_eq_iff)
  from import_rejected [where coerce = sample_coerce and rng = sample_rng and s = sample_app
      and err = SyntaxError, OF c disjI2 [OF conjI [OF d e]]]
  have 2: "handleCueImport sample_coerce sample_rng sample_app (Some no_cues_file)
       = (sample_app, [Invalid_JSON_format_missing_cues_array])"
    by (simp add: prod_eq_iff)
  from a b c d e 1 2 show ?thesis by blast
qed

section \<open>Loading an audio file\<close>

text \<open>
  C9, as the code has it. When the payload of the chosen audio file does not
  decode, the decode-failure alert is shown and the audio buffer, the duration, the
  file name and the cue set are as before; playback has been stopped and the
  current time reset to 0 by the \<open>handleStop\<close> that runs before the decoding.
\<close>

theorem upload_decode_failure:
  assumes "af_bytes file = Some Undecodable"
  shows "snd (handleFileUpload s (Some file)) = [Failed_to_decode_audio_file]
       \<and> audioBuffer (fst (handleFileUpload s (Some file))) = audioBuffer s
       \<and> duration (fst (handleFileUpload s (Some file))) = duration s
       \<and> fileName (fst (handleFileUpload s (Some file))) = fileName s
       \<and> cues (fst (handleFileUpload s (Some file))) = cues s
       \<and> \<not> isPlaying (fst (handleFileUpload s (Some file)))
       \<and> currentTime (fst (handleFileUpload s (Some file))) = 0
       \<and> fst (handleFileUpload s (Some file)) = handleStop s"
proof -
  have "handleFileUpload s (Some file) = (handleStop s, [Failed_to_decode_audio_file])"
    using assms by (simp add: handleFileUpload_def)
  then show ?thesis
    by (simp add: handleStop_fields)
qed

theorem upload_decode_failure_witness:
  "af_bytes undecodable_file = Some Undecodable
   \<and> snd (handleFileUpload sample_app (Some undecodable_file)) = [Failed_to_decode_audio_file]
   \<and> cues (fst (handleFileUpload sample_app (Some undecodable_file))) = sample_cues
   \<and> fileName (fst (handleFileUpload sample_app (Some undecodable_file))) = Some ''song.mp3''"
proof -
  have a: "af_bytes undecodable_file = Some Undecodable"
    by (simp add: undecodable_file_def)
  note w = upload_decode_failure [OF a, of sample_app]
  have 1: "snd (handleFileUpload sample_app (Some undecodable_file)) = [Failed_to_decode_audio_file]"
    using w by (rule conjunct1)
  have "cues (fst (handleFileUpload sample_app (Some undecodable_file))) = cues sample_app"
    using w by blast
  then have 2: "cues (fst (handleFileUpload sample_app (Some undecodable_file))) = sample_cues"
    by (simp add: sample_app_def)
  have "fileName (fst (handleFileUpload sample_app (Some undecodable_file))) = fileName sample_app"
    using w by blast
  then have 3: "fileName (fst (handleFileUpload sample_app (Some undecodable_file))) = Some ''song.mp3''"
    by (simp add: sample_app_def)
  from a 1 2 3 show ?thesis by blast
qed

text \<open>
  The claim C9 as stated (no state mutation at all, playback state and current time
  included) fails for an editor that is playing at time 5.
\<close>

theorem upload_decode_failure_counterexample:
  "af_bytes undecodable_file = Some Undecodable
   \<and> fst (handleFileUpload sample_app (Some undecodable_file)) \<noteq> sample_app
   \<and> isPlaying sample_app
   \<and> \<not> isPlaying (fst (handleFileUpload sample_app (Some undecodable_file)))
   \<and> currentTime sample_app = 5
   \<and> currentTime (fst (handleFileUpload sample_app (Some undecodable_file))) = 0"
proof -
  have r: "fst (handleFileUpload sample_app (Some undecodable_file)) = handleStop sample_app"
    by (simp add: handleFileUpload_def undecodable_file_def)
  have p: "isPlaying sample_app" "currentTime sample_app = 5"
    by (simp_all add: sample_app_def)
  have q: "\<not> isPlaying (handleStop sample_app)" "currentTime (handleStop sample_app) = 0"
    by (rule handleStop_fields)+
  have n: "handleStop sample_app \<noteq> sample_app"
    using p(1) q(1) by auto
  show ?thesis
    unfolding r using p q n by (simp add: undecodable_file_def)
qed

end
